theory Spec2Isabelle
  imports Main
begin

section \<open>Device samples state and API (src/lib/states/samples.svelte.ts)\<close>

text \<open>
  A shallow embedding of the shared device-samples module. The module keeps two
  process-wide reactive objects (the inventory snapshot and the three transfer channels)
  and drives an external device transport (\<open>sampleManager\<close>), a remote pack store
  (\<open>fetch\<close>) and a canonicalisation helper. None of the three is part of the module,
  so each is a parameter of the model: a record of response functions.

  Every operation is modelled as one call run to completion, with no other operation
  interleaved at its suspension points. A thrown fault (a rejected promise) is the
  \<open>Inl\<close> branch of the result; the state returned with it is the state at the throw.
\<close>

subsection \<open>Data model\<close>

text \<open>JavaScript numbers are only stored and compared here, never computed with.\<close>

type_synonym number = int

text \<open>\<open>type SamplePack = { name: string; loops: any[] }\<close>; the element type of
  \<open>loops\<close> is left open. The type is not checked at run time: a pack parsed from JSON
  can hold a \<open>loops\<close> field that is missing (null or undefined), an array, or any other
  value (a string, a number, an object), on which \<open>.map\<close> is not a function.\<close>

datatype 'l js_loops =
  No_loops
  | Loops "'l list"
  | Not_an_array

record 'l SamplePack =
  name :: string
  loops :: "'l js_loops"

text \<open>\<open>DeviceSamples\<close> is imported from the parser; the module only reads its
  \<open>pages\<close> field. \<open>None\<close> is a \<open>pages\<close> that is missing or not an array, and a
  slot that is \<open>None\<close> is an empty (null) slot.\<close>

record 'l DeviceSamples =
  pages :: "'l SamplePack option list option"

record SpaceUsed =
  tot :: number
  usd :: number
  packs :: "number list"

text \<open>\<open>DEFAULT_STATE\<close> and \<open>deviceSamplesState\<close>: every field is nullable.\<close>

record 'l DeviceSamplesState =
  ids :: "string option list option"
  deviceSamples :: "'l DeviceSamples option"
  isSupported :: "bool option"
  isSet :: "bool option"
  storageTotal :: "number option"
  storageUsed :: "number option"
  packsStorageUsed :: "number list option"

definition DEFAULT_STATE :: "'l DeviceSamplesState" where
  "DEFAULT_STATE =
     \<lparr>ids = None, deviceSamples = None, isSupported = None, isSet = None,
      storageTotal = None, storageUsed = None, packsStorageUsed = None\<rparr>"

text \<open>\<open>type SampleTransferState\<close>: idle, transferring with an optional progress, error
  with a message.\<close>

datatype SampleTransferState =
  Idle
  | Transferring "number option"
  | Error string

record TransferState =
  supportCheck :: SampleTransferState
  download :: SampleTransferState
  upload :: SampleTransferState

text \<open>The calls the module makes on the device transport, in the order made.\<close>

datatype 'l call =
  IsSet
  | GetSpaceUsed
  | GetIDs
  | DownloadSamples
  | UploadSamples "'l DeviceSamples"

text \<open>The module's state: the two reactive objects, and the log of transport calls.\<close>

record 'l world =
  deviceSamplesState :: "'l DeviceSamplesState"
  deviceSampleTransferState :: TransferState
  io :: "'l call list"

datatype fault = TransportFault | TypeError

text \<open>What a JavaScript function hands back where the source distinguishes a bare
  \<open>return;\<close> from \<open>return null\<close> and from an object.\<close>

datatype 'a js = Undefined | Null | Obj 'a

text \<open>What \<open>fetch\<close> of \<open>/samples/MONKEY/DRM/<encoded id>.json\<close> and \<open>res.json()\<close> can
  give: building the URL or the request throws, the status is not ok, the body does not
  parse, or it parses to null, to a primitive, or to an object (an array included) whose
  \<open>loops\<close> field is whatever the body says.\<close>

datatype 'l fetch_response =
  Fetch_rejected
  | Status_not_ok
  | Json_rejected
  | Json_null
  | Json_primitive
  | Json_object "'l js_loops"

text \<open>
  The external collaborators. A transport response may depend on every call made so
  far (the log), so any device behaviour is some value of this record. The two transfer
  operations also report the progress values they pass to the callback before they
  settle. The remote store serves files by id: its answer depends on the id only.
  \<open>canonicalize\<close> and \<open>JSON.stringify\<close> are used on loops only, and are taken to
  return for every argument.
  \<open>String.prototype.trim\<close> belongs to the runtime: it strips the Unicode white space
  and line terminators of a UTF-16 string, which a byte string cannot spell, so it is a
  parameter as well.
\<close>

record ('l, 'c) collaborators =
  sm_isSet :: "'l call list \<Rightarrow> fault + bool"
  sm_getSpaceUsed :: "'l call list \<Rightarrow> fault + SpaceUsed"
  sm_getIDs :: "'l call list \<Rightarrow> fault + string option list"
  sm_downloadSamples :: "'l call list \<Rightarrow> number list \<times> (fault + 'l DeviceSamples option)"
  sm_uploadSamples :: "'l call list \<Rightarrow> 'l DeviceSamples \<Rightarrow> number list \<times> (fault + bool)"
  remote_get :: "string \<Rightarrow> 'l fetch_response"
  canonicalize :: "'l \<Rightarrow> 'c"
  JSON_stringify :: "'c list \<Rightarrow> string"
  String_trim :: "string \<Rightarrow> string"

subsection \<open>State store\<close>

text \<open>\<open>invalidateDeviceSamplesState\<close>: \<open>Object.assign\<close> copies the seven fields of
  \<open>DEFAULT_STATE\<close> into the snapshot. (Writes through the reactive proxy do not reach
  the object it was created from, so \<open>DEFAULT_STATE\<close> keeps its initial fields.)\<close>

definition invalidateDeviceSamplesState :: "'l world \<Rightarrow> 'l world" where
  "invalidateDeviceSamplesState w =
     (let d = (DEFAULT_STATE :: 'l DeviceSamplesState) in
        w\<lparr>deviceSamplesState := (deviceSamplesState w)
           \<lparr>ids := ids d,
            deviceSamples := deviceSamples d,
            isSupported := isSupported d,
            isSet := isSet d,
            storageTotal := storageTotal d,
            storageUsed := storageUsed d,
            packsStorageUsed := packsStorageUsed d\<rparr>\<rparr>)"

fun transferring :: "SampleTransferState \<Rightarrow> bool" where
  "transferring (Transferring p) = True"
| "transferring Idle = False"
| "transferring (Error m) = False"

definition isTransfering :: "'l world \<Rightarrow> bool" where
  "isTransfering w =
     (transferring (supportCheck (deviceSampleTransferState w))
      \<or> transferring (download (deviceSampleTransferState w))
      \<or> transferring (upload (deviceSampleTransferState w)))"

definition set_supportCheck :: "SampleTransferState \<Rightarrow> 'l world \<Rightarrow> 'l world" where
  "set_supportCheck v w =
     w\<lparr>deviceSampleTransferState := (deviceSampleTransferState w)\<lparr>supportCheck := v\<rparr>\<rparr>"

definition set_download :: "SampleTransferState \<Rightarrow> 'l world \<Rightarrow> 'l world" where
  "set_download v w =
     w\<lparr>deviceSampleTransferState := (deviceSampleTransferState w)\<lparr>download := v\<rparr>\<rparr>"

definition set_upload :: "SampleTransferState \<Rightarrow> 'l world \<Rightarrow> 'l world" where
  "set_upload v w =
     w\<lparr>deviceSampleTransferState := (deviceSampleTransferState w)\<lparr>upload := v\<rparr>\<rparr>"

subsection \<open>Equality of packs and collections\<close>

text \<open>\<open>(x.loops ?? []).map(canonicalize)\<close>: a missing field is the empty array; calling
  \<open>.map\<close> on a value that is not an array throws a TypeError.\<close>

definition map_loops :: "('l \<Rightarrow> 'c) \<Rightarrow> 'l js_loops \<Rightarrow> fault + 'c list" where
  "map_loops canon l =
     (case l of
        No_loops \<Rightarrow> Inr (map canon [])
      | Loops xs \<Rightarrow> Inr (map canon xs)
      | Not_an_array \<Rightarrow> Inl TypeError)"

text \<open>\<open>samplePackEqual\<close>: both empty, or both present with the same name and loops
  that canonicalise and serialise to the same text. The loops of \<open>a\<close> are mapped first,
  then those of \<open>b\<close>; either can throw.\<close>

definition samplePackEqual ::
  "('l \<Rightarrow> 'c) \<Rightarrow> ('c list \<Rightarrow> string) \<Rightarrow> 'l SamplePack option \<Rightarrow> 'l SamplePack option
    \<Rightarrow> fault + bool"
where
  "samplePackEqual canon stringify a b =
     (case (a, b) of
        (None, None) \<Rightarrow> Inr True
      | (None, Some pb) \<Rightarrow> Inr False
      | (Some pa, None) \<Rightarrow> Inr False
      | (Some pa, Some pb) \<Rightarrow>
          if name pa \<noteq> name pb then Inr False
          else
            (case map_loops canon (loops pa) of
               Inl e \<Rightarrow> Inl e
             | Inr loopsA \<Rightarrow>
                 (case map_loops canon (loops pb) of
                    Inl e \<Rightarrow> Inl e
                  | Inr loopsB \<Rightarrow> Inr (stringify loopsA = stringify loopsB))))"

text \<open>The \<open>for\<close> loop of \<open>deviceSamplesEqual\<close>, over the indices still to visit: it
  returns false at the first unequal pair and leaves by the fault of the first comparison
  that throws.\<close>

fun slots_equal ::
  "('l \<Rightarrow> 'c) \<Rightarrow> ('c list \<Rightarrow> string) \<Rightarrow> 'l SamplePack option list
    \<Rightarrow> 'l SamplePack option list \<Rightarrow> nat list \<Rightarrow> fault + bool"
where
  "slots_equal canon stringify pa pb [] = Inr True"
| "slots_equal canon stringify pa pb (i # rest) =
     (case samplePackEqual canon stringify (pa ! i) (pb ! i) of
        Inl e \<Rightarrow> Inl e
      | Inr eq \<Rightarrow> if \<not> eq then Inr False else slots_equal canon stringify pa pb rest)"

text \<open>\<open>deviceSamplesEqual\<close>: both have pages, both have ten slots, and the slots
  are pairwise equal, index 0 to 9.\<close>

definition deviceSamplesEqual ::
  "('l \<Rightarrow> 'c) \<Rightarrow> ('c list \<Rightarrow> string) \<Rightarrow> 'l DeviceSamples option \<Rightarrow> 'l DeviceSamples option
    \<Rightarrow> fault + bool"
where
  "deviceSamplesEqual canon stringify a b =
     (case (a, b) of
        (Some da, Some db) \<Rightarrow>
          (case (pages da, pages db) of
             (Some pa, Some pb) \<Rightarrow>
               if length pa \<noteq> 10 \<or> length pb \<noteq> 10 then Inr False
               else slots_equal canon stringify pa pb [0..<10]
           | _ \<Rightarrow> Inr False)
      | _ \<Rightarrow> Inr False)"

subsection \<open>Fetching packs and building a collection\<close>

text \<open>\<open>fetchServerPack\<close>: everything that goes wrong inside the \<open>try\<close> gives null. The
  assignment \<open>pack.name = id\<close> throws on a null or primitive body (the module is strict
  code), and the \<open>catch\<close> turns that into null as well. An object body is returned as
  parsed, with its name set: nothing checks its \<open>loops\<close> field.\<close>

definition fetchServerPack :: "('l, 'c) collaborators \<Rightarrow> string \<Rightarrow> 'l SamplePack option" where
  "fetchServerPack K i =
     (case remote_get K i of
        Fetch_rejected \<Rightarrow> None
      | Status_not_ok \<Rightarrow> None
      | Json_rejected \<Rightarrow> None
      | Json_null \<Rightarrow> None
      | Json_primitive \<Rightarrow> None
      | Json_object l \<Rightarrow> Some \<lparr>name = i, loops = l\<rparr>)"

text \<open>The \<open>for\<close> loop of \<open>buildDeviceSamplesFromIds\<close>, over the ids still to visit, with
  the pages pushed so far. A falsy id (null or the empty string) pushes null; any other
  id is trimmed and fetched, and a failed fetch leaves the function with null.\<close>

fun build_pages ::
  "('l, 'c) collaborators \<Rightarrow> string option list \<Rightarrow> 'l SamplePack option list
    \<Rightarrow> 'l SamplePack option list option"
where
  "build_pages K [] pgs = Some pgs"
| "build_pages K (None # rest) pgs = build_pages K rest (pgs @ [None])"
| "build_pages K (Some s # rest) pgs =
     (if s = [] then build_pages K rest (pgs @ [None])
      else
        (case fetchServerPack K (String_trim K s) of
           None \<Rightarrow> None
         | Some pack \<Rightarrow> build_pages K rest (pgs @ [Some pack])))"

text \<open>\<open>while (pages.length < 10) pages.push(null)\<close>\<close>

function pad_pages :: "'l SamplePack option list \<Rightarrow> 'l SamplePack option list" where
  "pad_pages pgs = (if length pgs < 10 then pad_pages (pgs @ [None]) else pgs)"
  by pat_completeness auto
termination
  by (relation "measure (\<lambda>pgs. 10 - length pgs)") auto

declare pad_pages.simps [simp del]

definition buildDeviceSamplesFromIds ::
  "('l, 'c) collaborators \<Rightarrow> string option list option \<Rightarrow> 'l DeviceSamples option"
where
  "buildDeviceSamplesFromIds K idsArg =
     (case idsArg of
        None \<Rightarrow> None
      | Some idl \<Rightarrow>
          if length idl < 1 \<or> length idl > 10 then None
          else
            (case build_pages K idl [] of
               None \<Rightarrow> None
             | Some pgs \<Rightarrow> Some \<lparr>pages = Some (pad_pages pgs)\<rparr>))"

subsection \<open>Calls on the device transport\<close>

text \<open>Each call is appended to the log; its answer is the transport's answer to the
  log before the call. The progress callback of a transfer overwrites the channel with
  \<open>transferring\<close> and the reported value, once per value, before the call settles.\<close>

definition await_isSet :: "('l, 'c) collaborators \<Rightarrow> 'l world \<Rightarrow> (fault + bool) \<times> 'l world" where
  "await_isSet K w = (sm_isSet K (io w), w\<lparr>io := io w @ [IsSet]\<rparr>)"

definition await_getSpaceUsed ::
  "('l, 'c) collaborators \<Rightarrow> 'l world \<Rightarrow> (fault + SpaceUsed) \<times> 'l world"
where
  "await_getSpaceUsed K w = (sm_getSpaceUsed K (io w), w\<lparr>io := io w @ [GetSpaceUsed]\<rparr>)"

definition await_getIDs ::
  "('l, 'c) collaborators \<Rightarrow> 'l world \<Rightarrow> (fault + string option list) \<times> 'l world"
where
  "await_getIDs K w = (sm_getIDs K (io w), w\<lparr>io := io w @ [GetIDs]\<rparr>)"

definition await_downloadSamples ::
  "('l, 'c) collaborators \<Rightarrow> 'l world \<Rightarrow> (fault + 'l DeviceSamples option) \<times> 'l world"
where
  "await_downloadSamples K w =
     (case sm_downloadSamples K (io w) of
        (progress, r) \<Rightarrow>
          (r, foldl (\<lambda>w' val. set_download (Transferring (Some val)) w')
                (w\<lparr>io := io w @ [DownloadSamples]\<rparr>) progress))"

definition await_uploadSamples ::
  "('l, 'c) collaborators \<Rightarrow> 'l DeviceSamples \<Rightarrow> 'l world \<Rightarrow> (fault + bool) \<times> 'l world"
where
  "await_uploadSamples K newSamples w =
     (case sm_uploadSamples K (io w) newSamples of
        (progress, r) \<Rightarrow>
          (r, foldl (\<lambda>w' val. set_upload (Transferring (Some val)) w')
                (w\<lparr>io := io w @ [UploadSamples newSamples]\<rparr>) progress))"

subsection \<open>Probe: \<open>checkDeviceSampleSupport\<close>\<close>

text \<open>\<open>ids.map(id => id ? id[0] + "-" + id.slice(1) : null)\<close>: a falsy id is null or
  the empty string.\<close>

fun dash_id :: "string option \<Rightarrow> string option" where
  "dash_id None = None"
| "dash_id (Some []) = None"
| "dash_id (Some (c # cs)) = Some (c # CHR ''-'' # cs)"

text \<open>\<open>x || null\<close> on a nullable string.\<close>

fun or_null :: "string option \<Rightarrow> string option" where
  "or_null None = None"
| "or_null (Some []) = None"
| "or_null (Some (c # cs)) = Some (c # cs)"

text \<open>\<open>ids.push(ids.shift() || null)\<close>: \<open>shift\<close> on an empty array removes nothing
  and gives undefined.\<close>

fun shift_push :: "string option list \<Rightarrow> string option list" where
  "shift_push [] = [] @ [None]"
| "shift_push (x # xs) = xs @ [or_null x]"

definition stored_ids :: "string option list \<Rightarrow> string option list" where
  "stored_ids idl = shift_push (map dash_id idl)"

record SupportCheckResult =
  supported :: "bool option"
  isSet_result :: "bool option"

text \<open>The body of the \<open>try\<close> block: it ends normally or at the first call that throws.\<close>

definition probe_try :: "('l, 'c) collaborators \<Rightarrow> 'l world \<Rightarrow> (fault + unit) \<times> 'l world" where
  "probe_try K w =
     (case await_isSet K w of
        (Inl e, w1) \<Rightarrow> (Inl e, w1)
      | (Inr b, w1) \<Rightarrow>
          let w2 = w1\<lparr>deviceSamplesState :=
                      (deviceSamplesState w1)\<lparr>isSupported := Some True, isSet := Some b\<rparr>\<rparr>
          in
            if b then
              (case await_getSpaceUsed K w2 of
                 (Inl e, w3) \<Rightarrow> (Inl e, w3)
               | (Inr spaceUsed, w3) \<Rightarrow>
                   let w4 = w3\<lparr>deviceSamplesState :=
                               (deviceSamplesState w3)
                                 \<lparr>storageTotal := Some (tot spaceUsed),
                                  storageUsed := Some (usd spaceUsed),
                                  packsStorageUsed := Some (packs spaceUsed)\<rparr>\<rparr>
                   in
                     (case await_getIDs K w4 of
                        (Inl e, w5) \<Rightarrow> (Inl e, w5)
                      | (Inr idl, w5) \<Rightarrow>
                          (Inr (),
                           w5\<lparr>deviceSamplesState :=
                                (deviceSamplesState w5)\<lparr>ids := Some (stored_ids idl)\<rparr>\<rparr>)))
            else (Inr (), w2))"

definition checkDeviceSampleSupport ::
  "('l, 'c) collaborators \<Rightarrow> 'l world \<Rightarrow> (fault + SupportCheckResult js) \<times> 'l world"
where
  "checkDeviceSampleSupport K w =
     (if isTransfering w then
        (Inr Undefined, set_supportCheck (Error ''Transfer already in progress'') w)
      else
        let w1 = set_supportCheck (Transferring None) w;
            w2 = (case probe_try K w1 of
                    (Inr u, w') \<Rightarrow> w'
                  | (Inl e, w') \<Rightarrow>
                      w'\<lparr>deviceSamplesState := (deviceSamplesState w')\<lparr>isSupported := Some False\<rparr>\<rparr>);
            w3 = set_supportCheck Idle w2
        in (Inr (Obj \<lparr>supported = isSupported (deviceSamplesState w3),
                      isSet_result = isSet (deviceSamplesState w3)\<rparr>), w3))"

subsection \<open>Download: \<open>downloadDeviceSamples\<close>\<close>

definition downloadDeviceSamples ::
  "('l, 'c) collaborators \<Rightarrow> 'l world \<Rightarrow> (fault + 'l DeviceSamples js) \<times> 'l world"
where
  "downloadDeviceSamples K w =
     (if isTransfering w then
        (Inr Undefined, set_download (Error ''Transfer already in progress'') w)
      else if isSet (deviceSamplesState w) \<noteq> Some True then
        (Inr Null, set_download (Error ''Device samples not set'') w)
      else
        let w1 = set_download (Transferring None) w in
          (case await_downloadSamples K w1 of
             (Inl e, w2) \<Rightarrow> (Inl e, w2)
           | (Inr samples, w2) \<Rightarrow>
               let w3 = set_download Idle w2 in
                 (case samples of
                    None \<Rightarrow>
                      (Inr Null, set_download (Error ''Failed to download samples from device'') w3)
                  | Some d \<Rightarrow>
                      (Inr (Obj d),
                       w3\<lparr>deviceSamplesState :=
                            (deviceSamplesState w3)\<lparr>deviceSamples := Some d\<rparr>\<rparr>))))"

subsection \<open>Upload: \<open>uplaodDeviceSamples\<close>\<close>

text \<open>The part of the upload after the transport has acknowledged the write: the
  direct re-probe, the verification download and the comparison. Nothing here is inside
  a \<open>try\<close>: a fault of \<open>isSet\<close>, of the download or of the comparison leaves the upload.\<close>

definition verify_upload ::
  "('l, 'c) collaborators \<Rightarrow> 'l DeviceSamples \<Rightarrow> 'l world \<Rightarrow> (fault + bool) \<times> 'l world"
where
  "verify_upload K newSamples w =
     (let w1 = set_supportCheck (Transferring None) w in
        (case await_isSet K w1 of
           (Inl e, w2) \<Rightarrow> (Inl e, w2)
         | (Inr b, w2) \<Rightarrow>
             let w3 = w2\<lparr>deviceSamplesState := (deviceSamplesState w2)\<lparr>isSet := Some b\<rparr>\<rparr>;
                 w4 = set_supportCheck Idle w3
             in
               if isSet (deviceSamplesState w4) = Some False then
                 (Inr False, set_upload (Error ''Device samples are not set'') w4)
               else
                 (case downloadDeviceSamples K w4 of
                    (Inl e, w5) \<Rightarrow> (Inl e, w5)
                  | (Inr Undefined, w5) \<Rightarrow>
                      (Inr False, set_upload (Error ''Failed to re-download samples after upload'') w5)
                  | (Inr Null, w5) \<Rightarrow>
                      (Inr False, set_upload (Error ''Failed to re-download samples after upload'') w5)
                  | (Inr (Obj downloadSamples), w5) \<Rightarrow>
                      (case deviceSamplesEqual (canonicalize K) (JSON_stringify K)
                              (Some newSamples) (Some downloadSamples) of
                         Inl e \<Rightarrow> (Inl e, w5)
                       | Inr identical \<Rightarrow>
                           if \<not> identical then
                             (Inr False,
                              set_upload
                                (Error ''Uploaded and downloaded samples are not identical'') w5)
                           else (Inr True, w5)))))"

text \<open>The third guard is
  \<open>!newSamples || !Array.isArray(newSamples.pages) || newSamples.pages.length !== 10\<close>.\<close>

definition uplaodDeviceSamples ::
  "('l, 'c) collaborators \<Rightarrow> 'l DeviceSamples option \<Rightarrow> 'l world \<Rightarrow> (fault + bool) \<times> 'l world"
where
  "uplaodDeviceSamples K newSamples w =
     (if isTransfering w then
        (Inr False, set_upload (Error ''Transfer already in progress'') w)
      else if isSupported (deviceSamplesState w) \<noteq> Some True then
        (Inr False, set_upload (Error ''Device does not support samples'') w)
      else
        (case newSamples of
           None \<Rightarrow> (Inr False, set_upload (Error ''Invalid samples payload'') w)
         | Some ns \<Rightarrow>
             (case pages ns of
                None \<Rightarrow> (Inr False, set_upload (Error ''Invalid samples payload'') w)
              | Some pgs \<Rightarrow>
                  if length pgs \<noteq> 10 then
                    (Inr False, set_upload (Error ''Invalid samples payload'') w)
                  else
                    let w1 = set_upload (Transferring None) w in
                      (case await_uploadSamples K ns w1 of
                         (Inl e, w2) \<Rightarrow> (Inl e, w2)
                       | (Inr success, w2) \<Rightarrow>
                           if \<not> success then
                             (Inr False,
                              set_upload (Error ''Failed to upload samples to device'') w2)
                           else verify_upload K ns (set_upload Idle w2)))))"

subsection \<open>Default packs and initialisation\<close>

definition DEFAULT_SAMPLE_PACK_IDS :: "string list" where
  "DEFAULT_SAMPLE_PACK_IDS = [''W-MIXED'', ''W-UNDRGND'', ''W-OLLI'', ''W-OG'']"

definition uplaodDeviceDefaultSamples ::
  "('l, 'c) collaborators \<Rightarrow> 'l world \<Rightarrow> (fault + bool) \<times> 'l world"
where
  "uplaodDeviceDefaultSamples K w =
     (if isTransfering w then
        (Inr False, set_upload (Error ''Transfer already in progress'') w)
      else
        (case buildDeviceSamplesFromIds K (Some (map Some DEFAULT_SAMPLE_PACK_IDS)) of
           None \<Rightarrow> (Inr False, set_upload (Error ''Failed to construct default sample packs'') w)
         | Some defaults \<Rightarrow> uplaodDeviceSamples K (Some defaults) w))"

text \<open>JavaScript truthiness of a nullable boolean.\<close>

definition truthy :: "bool option \<Rightarrow> bool" where
  "truthy b = (b = Some True)"

text \<open>\<open>initialiseDeviceSamples\<close> returns nothing. Reading \<open>supportAfter.supported\<close> off
  the undefined that the busy path of the probe returns is a TypeError.\<close>

definition initialiseDeviceSamples ::
  "('l, 'c) collaborators \<Rightarrow> 'l world \<Rightarrow> (fault + unit) \<times> 'l world"
where
  "initialiseDeviceSamples K w =
     (case checkDeviceSampleSupport K w of
        (Inl e, w1) \<Rightarrow> (Inl e, w1)
      | (Inr Undefined, w1) \<Rightarrow> (Inr (), w1)
      | (Inr Null, w1) \<Rightarrow> (Inr (), w1)
      | (Inr (Obj support), w1) \<Rightarrow>
          if \<not> truthy (supported support) then (Inr (), w1)
          else if isSet_result support \<noteq> Some True then
            (case uplaodDeviceDefaultSamples K w1 of
               (Inl e, w2) \<Rightarrow> (Inl e, w2)
             | (Inr didUpload, w2) \<Rightarrow>
                 if \<not> didUpload then
                   (Inr (),
                    set_upload (Error ''Failed to upload default samples during initialisation'') w2)
                 else
                   (case checkDeviceSampleSupport K w2 of
                      (Inl e, w3) \<Rightarrow> (Inl e, w3)
                    | (Inr Undefined, w3) \<Rightarrow> (Inl TypeError, w3)
                    | (Inr Null, w3) \<Rightarrow> (Inl TypeError, w3)
                    | (Inr (Obj supportAfter), w3) \<Rightarrow>
                        if \<not> truthy (supported supportAfter) \<or> \<not> truthy (isSet_result supportAfter)
                        then
                          (Inr (),
                           set_supportCheck
                             (Error ''Device samples still not set after uploading defaults'') w3)
                        else
                          (case downloadDeviceSamples K w3 of
                             (Inl e, w4) \<Rightarrow> (Inl e, w4)
                           | (Inr r, w4) \<Rightarrow> (Inr (), w4))))
          else
            (case downloadDeviceSamples K w1 of
               (Inl e, w4) \<Rightarrow> (Inl e, w4)
             | (Inr r, w4) \<Rightarrow> (Inr (), w4)))"

subsection \<open>The id transform as the specification words it\<close>

text \<open>The specification's wording of the id transform, to compare \<open>stored_ids\<close> with:
  every non-null id \<open>x\<close> becomes \<open>x[0] + "-" + x[1:]\<close>, null stays null, and the
  sequence is rotated left by one position.\<close>

definition spec_ids :: "string option list \<Rightarrow> string option list" where
  "spec_ids idl = rotate1 (map (map_option (\<lambda>x. take 1 x @ ''-'' @ drop 1 x)) idl)"

subsection \<open>The declared type of loops\<close>



subsection \<open>Example collaborators and states\<close>

text \<open>A device that keeps what was last uploaded and hands it back on download; it
  reports itself set once something was uploaded. The remote store has the four default
  packs. Loops are numbers here, canonical modulo 8. The example runtime trims the ASCII
  white space and the no-break space.\<close>

definition example_space :: "char \<Rightarrow> bool" where
  "example_space c =
     (c = CHR 0x20 \<or> c = CHR 0x09 \<or> c = CHR 0x0A \<or> c = CHR 0x0B \<or> c = CHR 0x0C
      \<or> c = CHR 0x0D \<or> c = CHR 0xA0)"

definition example_trim :: "string \<Rightarrow> string" where
  "example_trim s = rev (dropWhile example_space (rev (dropWhile example_space s)))"

fun is_upload :: "'l call \<Rightarrow> bool" where
  "is_upload (UploadSamples d) = True"
| "is_upload c = False"

fun last_upload :: "'l call list \<Rightarrow> 'l DeviceSamples option" where
  "last_upload [] = None"
| "last_upload (UploadSamples d # h) =
     (case last_upload h of None \<Rightarrow> Some d | Some d' \<Rightarrow> Some d')"
| "last_upload (c # h) = last_upload h"

definition example_loops :: "string \<Rightarrow> nat js_loops" where
  "example_loops i = (if i = ''W-OG'' then No_loops else Loops [length i, 7])"

definition loopback :: "(nat, nat) collaborators" where
  "loopback =
     \<lparr>sm_isSet = (\<lambda>h. Inr (list_ex is_upload h)),
      sm_getSpaceUsed = (\<lambda>h. Inr \<lparr>tot = 4096, usd = 1024, packs = [512, 512]\<rparr>),
      sm_getIDs = (\<lambda>h. Inr [Some ''ABCD'', Some ''WXYZ'']),
      sm_downloadSamples = (\<lambda>h. ([50, 100], Inr (last_upload h))),
      sm_uploadSamples = (\<lambda>h d. ([25, 100], Inr True)),
      remote_get =
        (\<lambda>i. if List.member DEFAULT_SAMPLE_PACK_IDS i then Json_object (example_loops i)
             else Status_not_ok),
      canonicalize = (\<lambda>n. n mod 8),
      JSON_stringify = (\<lambda>ns. concat (map (\<lambda>n. replicate n (CHR ''i'') @ '','') ns)),
      String_trim = example_trim\<rparr>"

text \<open>The same device, already holding samples.\<close>

definition set_device :: "(nat, nat) collaborators" where
  "set_device = loopback\<lparr>sm_isSet := \<lambda>h. Inr True\<rparr>"

definition idle_channels :: TransferState where
  "idle_channels = \<lparr>supportCheck = Idle, download = Idle, upload = Idle\<rparr>"

text \<open>The state at process start, a state with a download in flight, and states after
  a probe found the device supported (and set).\<close>

definition fresh :: "nat world" where
  "fresh = \<lparr>deviceSamplesState = DEFAULT_STATE, deviceSampleTransferState = idle_channels, io = []\<rparr>"

definition downloading :: "nat world" where
  "downloading = fresh\<lparr>deviceSampleTransferState := idle_channels\<lparr>download := Transferring (Some 40)\<rparr>\<rparr>"

definition supported_unset :: "nat world" where
  "supported_unset =
     fresh\<lparr>deviceSamplesState := DEFAULT_STATE\<lparr>isSupported := Some True, isSet := Some False\<rparr>\<rparr>"

definition supported_set :: "nat world" where
  "supported_set =
     fresh\<lparr>deviceSamplesState := DEFAULT_STATE\<lparr>isSupported := Some True, isSet := Some True\<rparr>\<rparr>"

text \<open>A device that hands back what was uploaded in another representation: every loop
  value shifted by 8 (canonically the same), a missing loops field as the empty list.\<close>

definition readback :: "nat DeviceSamples \<Rightarrow> nat DeviceSamples" where
  "readback d =
     \<lparr>pages =
        map_option
          (map (map_option
             (\<lambda>p. p\<lparr>loops := (case loops p of
                                 No_loops \<Rightarrow> Loops []
                               | Loops xs \<Rightarrow> Loops (map (\<lambda>n. n + 8) xs)
                               | Not_an_array \<Rightarrow> Not_an_array)\<rparr>)))
          (pages d)\<rparr>"

definition echo :: "(nat, nat) collaborators" where
  "echo =
     loopback\<lparr>sm_downloadSamples := \<lambda>h. ([50, 100], Inr (map_option readback (last_upload h)))\<rparr>"

text \<open>A ten-slot collection with two packs.\<close>

definition kit :: "nat DeviceSamples" where
  "kit =
     \<lparr>pages = Some ([Some \<lparr>name = ''KICK'', loops = Loops [1, 2]\<rparr>,
                     Some \<lparr>name = ''SNARE'', loops = No_loops\<rparr>] @ replicate 8 None)\<rparr>"

text \<open>Devices whose transport throws: on every probe call, on \<open>getSpaceUsed\<close>, on
  \<open>getIDs\<close>.\<close>

definition dead_device :: "(nat, nat) collaborators" where
  "dead_device =
     loopback\<lparr>sm_isSet := \<lambda>h. Inl TransportFault,
              sm_getSpaceUsed := \<lambda>h. Inl TransportFault,
              sm_getIDs := \<lambda>h. Inl TransportFault\<rparr>"

definition no_space_device :: "(nat, nat) collaborators" where
  "no_space_device = set_device\<lparr>sm_getSpaceUsed := \<lambda>h. Inl TransportFault\<rparr>"

definition no_ids_device :: "(nat, nat) collaborators" where
  "no_ids_device = set_device\<lparr>sm_getIDs := \<lambda>h. Inl TransportFault\<rparr>"


definition dropping_device :: "(nat, nat) collaborators" where
  "dropping_device = set_device\<lparr>sm_downloadSamples := \<lambda>h. ([30], Inl TransportFault)\<rparr>"



section \<open>Properties\<close>

lemmas chan_defs = set_supportCheck_def set_download_def set_upload_def isTransfering_def

lemmas await_defs = await_isSet_def await_getSpaceUsed_def await_getIDs_def
  await_downloadSamples_def await_uploadSamples_def

lemmas example_defs = loopback_def set_device_def idle_channels_def fresh_def downloading_def
  supported_unset_def supported_set_def DEFAULT_STATE_def

subsection \<open>Reset\<close>

text \<open>C9. For every state of the store, \<open>invalidateDeviceSamplesState\<close> sets each of the
  seven snapshot fields (ids, deviceSamples, isSupported, isSet, storageTotal, storageUsed,
  packsStorageUsed) to its all-unknown default, null, and leaves the three channels and
  the log of transport calls as they were.\<close>

theorem reset_snapshot_only:
  "ids (deviceSamplesState (invalidateDeviceSamplesState w)) = None
   \<and> deviceSamples (deviceSamplesState (invalidateDeviceSamplesState w)) = None
   \<and> isSupported (deviceSamplesState (invalidateDeviceSamplesState w)) = None
   \<and> isSet (deviceSamplesState (invalidateDeviceSamplesState w)) = None
   \<and> storageTotal (deviceSamplesState (invalidateDeviceSamplesState w)) = None
   \<and> storageUsed (deviceSamplesState (invalidateDeviceSamplesState w)) = None
   \<and> packsStorageUsed (deviceSamplesState (invalidateDeviceSamplesState w)) = None
   \<and> supportCheck (deviceSampleTransferState (invalidateDeviceSamplesState w))
       = supportCheck (deviceSampleTransferState w)
   \<and> download (deviceSampleTransferState (invalidateDeviceSamplesState w))
       = download (deviceSampleTransferState w)
   \<and> upload (deviceSampleTransferState (invalidateDeviceSamplesState w))
       = upload (deviceSampleTransferState w)
   \<and> io (invalidateDeviceSamplesState w) = io w"
  by (simp add: invalidateDeviceSamplesState_def DEFAULT_STATE_def)

subsection \<open>Pack equality\<close>

text \<open>C10. In \<open>samplePackEqual\<close> a missing loops field counts as the empty sequence: for
  every name, a pack with that name and loops null or undefined equals the pack with that
  name and loops \<open>[]\<close> (the comparison returns true), in either argument order, whatever
  the canonicaliser and the serialiser are.\<close>

theorem missing_loops_equal_empty_loops:
  "samplePackEqual canon stringify
     (Some \<lparr>name = n, loops = No_loops\<rparr>) (Some \<lparr>name = n, loops = Loops []\<rparr>) = Inr True
   \<and> samplePackEqual canon stringify
     (Some \<lparr>name = n, loops = Loops []\<rparr>) (Some \<lparr>name = n, loops = No_loops\<rparr>) = Inr True"
  by (simp add: samplePackEqual_def map_loops_def)

subsection \<open>The busy gate\<close>

text \<open>C2. Whenever one of the three channels is transferring, \<open>checkDeviceSampleSupport\<close>,
  \<open>downloadDeviceSamples\<close> and \<open>uplaodDeviceSamples\<close> each return at once (undefined,
  undefined, false), change nothing but their own channel, which becomes the error
  \<open>Transfer already in progress\<close>, and make no call on the device transport.\<close>

theorem busy_fails_fast:
  assumes "isTransfering w"
  shows "checkDeviceSampleSupport K w =
           (Inr Undefined,
            w\<lparr>deviceSampleTransferState :=
                (deviceSampleTransferState w)\<lparr>supportCheck := Error ''Transfer already in progress''\<rparr>\<rparr>)
       \<and> downloadDeviceSamples K w =
           (Inr Undefined,
            w\<lparr>deviceSampleTransferState :=
                (deviceSampleTransferState w)\<lparr>download := Error ''Transfer already in progress''\<rparr>\<rparr>)
       \<and> uplaodDeviceSamples K newSamples w =
           (Inr False,
            w\<lparr>deviceSampleTransferState :=
                (deviceSampleTransferState w)\<lparr>upload := Error ''Transfer already in progress''\<rparr>\<rparr>)
       \<and> io (snd (checkDeviceSampleSupport K w)) = io w
       \<and> io (snd (downloadDeviceSamples K w)) = io w
       \<and> io (snd (uplaodDeviceSamples K newSamples w)) = io w"
  using assms
  by (simp add: checkDeviceSampleSupport_def downloadDeviceSamples_def uplaodDeviceSamples_def
      set_supportCheck_def set_download_def set_upload_def)

theorem busy_fails_fast_witness:
  "isTransfering downloading
   \<and> fst (checkDeviceSampleSupport loopback downloading) = Inr Undefined
   \<and> supportCheck (deviceSampleTransferState (snd (checkDeviceSampleSupport loopback downloading)))
       = Error ''Transfer already in progress''
   \<and> fst (downloadDeviceSamples loopback downloading) = Inr Undefined
   \<and> download (deviceSampleTransferState (snd (downloadDeviceSamples loopback downloading)))
       = Error ''Transfer already in progress''
   \<and> fst (uplaodDeviceSamples loopback None downloading) = Inr False
   \<and> upload (deviceSampleTransferState (snd (uplaodDeviceSamples loopback None downloading)))
       = Error ''Transfer already in progress''
   \<and> io (snd (uplaodDeviceSamples loopback None downloading)) = []"
  using busy_fails_fast [of downloading loopback None]
  by (simp add: isTransfering_def downloading_def fresh_def idle_channels_def)

subsection \<open>Transfers and their progress reports\<close>

lemma set_download_twice: "set_download a (set_download b w) = set_download a w"
  by (simp add: set_download_def)

lemma set_upload_twice: "set_upload a (set_upload b w) = set_upload a w"
  by (simp add: set_upload_def)

lemma progress_download:
  "foldl (\<lambda>w' val. set_download (Transferring (Some val)) w') w ps =
     (if ps = [] then w else set_download (Transferring (Some (last ps))) w)"
  by (induction ps rule: rev_induct) (simp_all add: set_download_twice)

lemma progress_upload:
  "foldl (\<lambda>w' val. set_upload (Transferring (Some val)) w') w ps =
     (if ps = [] then w else set_upload (Transferring (Some (last ps))) w)"
  by (induction ps rule: rev_induct) (simp_all add: set_upload_twice)

text \<open>A transfer leaves its channel transferring, with the last progress reported (or as
  it was, when none was), and adds its call to the log.\<close>

lemma await_downloadSamples_eq:
  "await_downloadSamples K w =
     (case sm_downloadSamples K (io w) of
        (progress, r) \<Rightarrow>
          (r, w\<lparr>deviceSampleTransferState := (deviceSampleTransferState w)
                  \<lparr>download := (if progress = [] then download (deviceSampleTransferState w)
                                else Transferring (Some (last progress)))\<rparr>,
                io := io w @ [DownloadSamples]\<rparr>))"
  by (simp add: await_downloadSamples_def progress_download split: prod.splits)
     (simp add: set_download_def)

lemma await_uploadSamples_eq:
  "await_uploadSamples K d w =
     (case sm_uploadSamples K (io w) d of
        (progress, r) \<Rightarrow>
          (r, w\<lparr>deviceSampleTransferState := (deviceSampleTransferState w)
                  \<lparr>upload := (if progress = [] then upload (deviceSampleTransferState w)
                              else Transferring (Some (last progress)))\<rparr>,
                io := io w @ [UploadSamples d]\<rparr>))"
  by (simp add: await_uploadSamples_def progress_upload split: prod.splits)
     (simp add: set_upload_def)

subsection \<open>Upload is verified by reading back\<close>

lemma download_returns_object:
  assumes "downloadDeviceSamples K w = (Inr (Obj D), w')"
  shows "\<exists>progress. sm_downloadSamples K (io w) = (progress, Inr (Some D))
           \<and> io w' = io w @ [DownloadSamples]
           \<and> deviceSamples (deviceSamplesState w') = Some D
           \<and> deviceSampleTransferState w' = (deviceSampleTransferState w)\<lparr>download := Idle\<rparr>"
  using assms
  by (auto simp add: downloadDeviceSamples_def await_downloadSamples_eq
      set_download_def Let_def split: if_splits prod.splits sum.splits option.splits)

lemma verify_upload_true:
  assumes "verify_upload K C w = (Inr True, w')"
  shows "\<exists>D progress. sm_downloadSamples K (io w @ [IsSet]) = (progress, Inr (Some D))
           \<and> io w' = io w @ [IsSet, DownloadSamples]
           \<and> deviceSamples (deviceSamplesState w') = Some D
           \<and> deviceSamplesEqual (canonicalize K) (JSON_stringify K) (Some C) (Some D) = Inr True
           \<and> deviceSampleTransferState w' =
               (deviceSampleTransferState w)\<lparr>supportCheck := Idle, download := Idle\<rparr>"
proof -
  from assms obtain b D where
      dl: "downloadDeviceSamples K
             (set_supportCheck Idle
               ((w\<lparr>deviceSampleTransferState :=
                      (deviceSampleTransferState w)\<lparr>supportCheck := Transferring None\<rparr>,
                    io := io w @ [IsSet]\<rparr>)
                 \<lparr>deviceSamplesState := (deviceSamplesState w)\<lparr>isSet := Some b\<rparr>\<rparr>))
           = (Inr (Obj D), w')" and
      eq: "deviceSamplesEqual (canonicalize K) (JSON_stringify K) (Some C) (Some D) = Inr True"
    by (auto simp add: verify_upload_def await_isSet_def set_supportCheck_def Let_def
        split: if_splits prod.splits sum.splits js.splits)
  from download_returns_object [OF dl] eq show ?thesis
    by (auto simp add: set_supportCheck_def)
qed

text \<open>C1. For every payload, if \<open>uplaodDeviceSamples\<close> returns true then the payload is a
  collection C, the last transport call of the upload was the verification download, that
  download returned a collection D (now the snapshot's \<open>deviceSamples\<close>), and C and D are
  equal under \<open>deviceSamplesEqual\<close> (it returns true for them).\<close>

theorem upload_true_is_verified:
  assumes "uplaodDeviceSamples K newSamples w = (Inr True, w')"
  shows "\<exists>C D h progress.
           newSamples = Some C
         \<and> io w' = h @ [DownloadSamples]
         \<and> sm_downloadSamples K h = (progress, Inr (Some D))
         \<and> deviceSamples (deviceSamplesState w') = Some D
         \<and> deviceSamplesEqual (canonicalize K) (JSON_stringify K) (Some C) (Some D) = Inr True"
proof -
  from assms obtain C where
      C: "newSamples = Some C" and
      v: "verify_upload K C
            (w\<lparr>io := io w @ [UploadSamples C],
               deviceSampleTransferState := (deviceSampleTransferState w)\<lparr>upload := Idle\<rparr>\<rparr>)
          = (Inr True, w')"
    by (auto simp add: uplaodDeviceSamples_def await_uploadSamples_eq set_upload_def Let_def
        split: if_splits prod.splits sum.splits option.splits)
  from verify_upload_true [OF v] obtain D progress where
      "sm_downloadSamples K (io w @ [UploadSamples C, IsSet]) = (progress, Inr (Some D))"
      "io w' = io w @ [UploadSamples C, IsSet, DownloadSamples]"
      "deviceSamples (deviceSamplesState w') = Some D"
      "deviceSamplesEqual (canonicalize K) (JSON_stringify K) (Some C) (Some D) = Inr True"
    by auto
  with C show ?thesis
    by (intro exI [of _ C] exI [of _ D] exI [of _ "io w @ [UploadSamples C, IsSet]"]
          exI [of _ progress])
       simp
qed

theorem upload_true_is_verified_witness:
  "fst (uplaodDeviceSamples echo (Some kit) supported_unset) = Inr True
   \<and> deviceSamples (deviceSamplesState (snd (uplaodDeviceSamples echo (Some kit) supported_unset)))
       = Some (readback kit)
   \<and> readback kit \<noteq> kit
   \<and> deviceSamplesEqual (canonicalize echo) (JSON_stringify echo) (Some kit) (Some (readback kit))
       = Inr True"
proof -
  have run: "uplaodDeviceSamples echo (Some kit) supported_unset
               = (Inr True, snd (uplaodDeviceSamples echo (Some kit) supported_unset))"
    by (rule prod_eqI) (simp_all, code_simp)
  have stored: "deviceSamples (deviceSamplesState
                  (snd (uplaodDeviceSamples echo (Some kit) supported_unset)))
                = Some (readback kit)"
    by code_simp
  have diff: "readback kit \<noteq> kit"
    by code_simp
  from upload_true_is_verified [OF run] stored diff show ?thesis
    by (auto simp add: run [THEN arg_cong, of fst, simplified])
qed

subsection \<open>The stored ids\<close>

lemma or_null_dash_id: "or_null (dash_id x) = dash_id x"
  by (cases x rule: dash_id.cases) simp_all

lemma stored_ids_rotate:
  "stored_ids idl = (if idl = [] then [None] else rotate1 (map dash_id idl))"
  by (cases idl) (simp_all add: stored_ids_def or_null_dash_id)

lemma dash_id_alt:
  "dash_id x =
     (case x of None \<Rightarrow> None
      | Some s \<Rightarrow> if s = [] then None else Some (hd s # CHR ''-'' # tl s))"
  by (cases x rule: dash_id.cases) simp_all

lemma dash_id_spec:
  "x \<noteq> Some [] \<Longrightarrow> dash_id x = map_option (\<lambda>x. take 1 x @ ''-'' @ drop 1 x) x"
  by (cases x rule: dash_id.cases) simp_all

lemma probe_stores_ids:
  assumes "\<not> isTransfering w"
    and "sm_isSet K (io w) = Inr True"
    and "sm_getSpaceUsed K (io w @ [IsSet]) = Inr su"
    and "sm_getIDs K (io w @ [IsSet, GetSpaceUsed]) = Inr idl"
  shows "ids (deviceSamplesState (snd (checkDeviceSampleSupport K w))) = Some (stored_ids idl)"
  using assms
  by (simp add: checkDeviceSampleSupport_def probe_try_def await_defs set_supportCheck_def Let_def)

text \<open>C6, amended. When a probe of an idle store finds the device set and \<open>getSpaceUsed\<close> and
  \<open>getIDs\<close> answer, the stored ids are: for an empty id sequence the one-element sequence
  \<open>[null]\<close>; otherwise the sequence in which every null or empty id is null and every other
  id \<open>x\<close> is \<open>x[0] + "-" + x[1:]\<close>, rotated left by one position. For a non-empty sequence
  without empty strings this is the specification's transform.\<close>

theorem probe_ids_dashed_and_rotated:
  assumes "\<not> isTransfering w"
    and "sm_isSet K (io w) = Inr True"
    and "sm_getSpaceUsed K (io w @ [IsSet]) = Inr su"
    and "sm_getIDs K (io w @ [IsSet, GetSpaceUsed]) = Inr idl"
  shows "ids (deviceSamplesState (snd (checkDeviceSampleSupport K w))) =
           Some (if idl = [] then [None]
                 else rotate1
                   (map (\<lambda>x. case x of None \<Rightarrow> None
                          | Some s \<Rightarrow> if s = [] then None else Some (hd s # CHR ''-'' # tl s))
                      idl))
       \<and> (idl \<noteq> [] \<and> Some [] \<notin> set idl \<longrightarrow>
            ids (deviceSamplesState (snd (checkDeviceSampleSupport K w))) = Some (spec_ids idl))"
proof -
  have stored:
    "ids (deviceSamplesState (snd (checkDeviceSampleSupport K w))) = Some (stored_ids idl)"
    using assms by (rule probe_stores_ids)
  have "map dash_id idl = map (map_option (\<lambda>x. take 1 x @ ''-'' @ drop 1 x)) idl"
    if "Some [] \<notin> set idl"
  proof (rule map_cong [OF refl])
    fix x assume "x \<in> set idl"
    with that have "x \<noteq> Some []" by auto
    then show "dash_id x = map_option (\<lambda>x. take 1 x @ ''-'' @ drop 1 x) x"
      by (rule dash_id_spec)
  qed
  then have spec: "idl \<noteq> [] \<and> Some [] \<notin> set idl \<longrightarrow> stored_ids idl = spec_ids idl"
    by (simp add: stored_ids_rotate spec_ids_def del: map_eq_conv)
  have alt:
    "map (\<lambda>x. case x of None \<Rightarrow> None
           | Some s \<Rightarrow> if s = [] then None else Some (hd s # CHR ''-'' # tl s)) idl
     = map dash_id idl"
    by (rule map_cong [OF refl]) (simp add: dash_id_alt)
  show ?thesis using stored spec by (simp add: stored_ids_rotate alt)
qed

theorem probe_ids_dashed_and_rotated_witness:
  "\<not> isTransfering fresh
   \<and> sm_isSet set_device (io fresh) = Inr True
   \<and> sm_getIDs set_device (io fresh @ [IsSet, GetSpaceUsed]) = Inr [Some ''ABCD'', Some ''WXYZ'']
   \<and> ids (deviceSamplesState (snd (checkDeviceSampleSupport set_device fresh)))
       = Some [Some ''W-XYZ'', Some ''A-BCD'']
   \<and> spec_ids [Some ''ABCD'', Some ''WXYZ''] = [Some ''W-XYZ'', Some ''A-BCD'']"
  using probe_ids_dashed_and_rotated [of fresh set_device
      "\<lparr>tot = 4096, usd = 1024, packs = [512, 512]\<rparr>" "[Some ''ABCD'', Some ''WXYZ'']"]
  by (simp add: example_defs isTransfering_def spec_ids_def)

text \<open>The claim as stated fails on an empty id sequence (the code stores \<open>[null]\<close>, the
  rotation of nothing is nothing) and on an empty id (the code stores null for it).\<close>

theorem probe_ids_counterexample:
  "ids (deviceSamplesState (snd (checkDeviceSampleSupport
      (set_device\<lparr>sm_getIDs := \<lambda>h. Inr []\<rparr>) fresh))) = Some [None]
   \<and> spec_ids [] = []
   \<and> ids (deviceSamplesState (snd (checkDeviceSampleSupport
      (set_device\<lparr>sm_getIDs := \<lambda>h. Inr [Some '''']\<rparr>) fresh))) = Some [None]
   \<and> spec_ids [Some ''''] = [Some ''-'']"
  by (simp add: checkDeviceSampleSupport_def probe_try_def await_defs chan_defs Let_def
      example_defs stored_ids_def spec_ids_def)

subsection \<open>Payload validation\<close>

text \<open>C8, amended. For every payload whose slot sequence does not have exactly 10 entries
  (a null payload and a payload whose pages are not an array included),
  \<open>uplaodDeviceSamples\<close> returns false, changes nothing but the upload channel, which becomes
  an error, and makes no call on the device transport. The message is the payload
  validation message when no channel is transferring and the snapshot says the device is
  supported; the two earlier guards win otherwise, with the busy message and the
  unsupported message.\<close>

theorem invalid_payload_rejected:
  assumes "case newSamples of None \<Rightarrow> True
           | Some ns \<Rightarrow> (case pages ns of None \<Rightarrow> True | Some pgs \<Rightarrow> length pgs \<noteq> 10)"
  shows "uplaodDeviceSamples K newSamples w =
           (Inr False,
            w\<lparr>deviceSampleTransferState := (deviceSampleTransferState w)
                \<lparr>upload := Error
                   (if isTransfering w then ''Transfer already in progress''
                    else if isSupported (deviceSamplesState w) \<noteq> Some True
                      then ''Device does not support samples''
                    else ''Invalid samples payload'')\<rparr>\<rparr>)
       \<and> io (snd (uplaodDeviceSamples K newSamples w)) = io w"
  using assms
  by (simp add: uplaodDeviceSamples_def set_upload_def split: option.splits)

theorem invalid_payload_rejected_witness:
  "fst (uplaodDeviceSamples loopback (Some \<lparr>pages = Some [None, None, None]\<rparr>) supported_set)
     = Inr False
   \<and> upload (deviceSampleTransferState
       (snd (uplaodDeviceSamples loopback (Some \<lparr>pages = Some [None, None, None]\<rparr>) supported_set)))
     = Error ''Invalid samples payload''
   \<and> io (snd (uplaodDeviceSamples loopback (Some \<lparr>pages = Some [None, None, None]\<rparr>) supported_set))
     = []
   \<and> upload (deviceSampleTransferState
       (snd (uplaodDeviceSamples loopback (Some \<lparr>pages = None\<rparr>) supported_set)))
     = Error ''Invalid samples payload''"
  using invalid_payload_rejected [of "Some \<lparr>pages = Some [None, None, None]\<rparr>" loopback supported_set]
    invalid_payload_rejected [of "Some \<lparr>pages = None\<rparr>" loopback supported_set]
  by (simp add: example_defs isTransfering_def)

text \<open>The claim as stated fails where an earlier guard fires: at process start the snapshot
  does not say the device is supported, and a null payload gets the unsupported message.\<close>

theorem invalid_payload_counterexample:
  "fst (uplaodDeviceSamples loopback None fresh) = Inr False
   \<and> upload (deviceSampleTransferState (snd (uplaodDeviceSamples loopback None fresh)))
       = Error ''Device does not support samples''
   \<and> upload (deviceSampleTransferState (snd (uplaodDeviceSamples loopback None fresh)))
       \<noteq> Error ''Invalid samples payload''"
  by (simp add: uplaodDeviceSamples_def chan_defs example_defs)

subsection \<open>Building a collection from ids\<close>

lemma build_pages_eq:
  "build_pages K idl acc =
     (if list_ex (\<lambda>x. case x of None \<Rightarrow> False
                    | Some s \<Rightarrow> s \<noteq> [] \<and> fetchServerPack K (String_trim K s) = None) idl
      then None
      else Some (acc @ map (\<lambda>x. case x of None \<Rightarrow> None
                             | Some s \<Rightarrow> if s = [] then None else fetchServerPack K (String_trim K s)) idl))"
proof (induction K idl acc rule: build_pages.induct)
  case (1 K pgs)
  then show ?case by simp
next
  case (2 K rest pgs)
  then show ?case by simp
next
  case (3 K s rest pgs)
  show ?case
  proof (cases "s = []")
    case True
    with 3 show ?thesis by simp
  next
    case False
    show ?thesis
    proof (cases "fetchServerPack K (String_trim K s)")
      case None
      with False show ?thesis by simp
    next
      case (Some pack)
      with False 3 show ?thesis by simp
    qed
  qed
qed

lemma pad_pages_eq: "pad_pages pgs = pgs @ replicate (10 - length pgs) None"
proof (induction pgs rule: pad_pages.induct)
  case (1 pgs)
  show ?case
  proof (cases "length pgs < 10")
    case True
    then have "pad_pages pgs = pad_pages (pgs @ [None])"
      by (subst pad_pages.simps) (simp only: if_True)
    also have "\<dots> = (pgs @ [None]) @ replicate (10 - length (pgs @ [None])) None"
      using True by (rule 1)
    also have "\<dots> = pgs @ replicate (Suc (10 - Suc (length pgs))) None"
      by simp
    also have "Suc (10 - Suc (length pgs)) = 10 - length pgs"
      using True by arith
    finally show ?thesis .
  next
    case False
    then show ?thesis by (subst pad_pages.simps) simp
  qed
qed

text \<open>C7. For every id sequence, and whatever \<open>String.prototype.trim\<close> strips,
  \<open>buildDeviceSamplesFromIds\<close> returns null when the length is outside 1 to 10, or when
  some id that is neither null nor empty has a failing fetch (of the trimmed id);
  otherwise it returns a collection of exactly 10 slots: slot \<open>i\<close> below the input length
  is null for a null or empty id and the fetched pack for any other id, and the slots
  beyond the input length are null. A null id sequence gives null.\<close>

theorem build_all_or_nothing:
  "buildDeviceSamplesFromIds K (Some idl) =
     (if length idl < 1 \<or> 10 < length idl
         \<or> list_ex (\<lambda>x. case x of None \<Rightarrow> False
                       | Some s \<Rightarrow> s \<noteq> [] \<and> fetchServerPack K (String_trim K s) = None) idl
      then None
      else Some \<lparr>pages = Some
             (map (\<lambda>x. case x of None \<Rightarrow> None
                    | Some s \<Rightarrow> if s = [] then None else fetchServerPack K (String_trim K s)) idl
              @ replicate (10 - length idl) None)\<rparr>)
   \<and> (\<forall>d. buildDeviceSamplesFromIds K (Some idl) = Some d \<longrightarrow>
         (\<exists>pgs. pages d = Some pgs \<and> length pgs = 10))
   \<and> buildDeviceSamplesFromIds K None = None"
  by (auto simp add: buildDeviceSamplesFromIds_def build_pages_eq pad_pages_eq)

theorem build_all_or_nothing_witness:
  "buildDeviceSamplesFromIds loopback (Some [Some ''W-OG'', Some ''B'']) = None
   \<and> buildDeviceSamplesFromIds loopback (Some []) = None
   \<and> buildDeviceSamplesFromIds loopback (Some (replicate 11 None)) = None
   \<and> buildDeviceSamplesFromIds loopback
       (Some [Some (CHR 0xA0 # ''W-OG''), None, Some [], Some ''  W-OLLI '']) =
       Some \<lparr>pages = Some [Some \<lparr>name = ''W-OG'', loops = No_loops\<rparr>, None, None,
                            Some \<lparr>name = ''W-OLLI'', loops = Loops [6, 7]\<rparr>,
                            None, None, None, None, None, None]\<rparr>"
proof -
  have a: "fetchServerPack loopback (String_trim loopback ''B'') = None"
    by code_simp
  have b: "fetchServerPack loopback (String_trim loopback ''W-OG'')
             = Some \<lparr>name = ''W-OG'', loops = No_loops\<rparr>"
    by code_simp
  have b': "fetchServerPack loopback (String_trim loopback (CHR 0xA0 # ''W-OG''))
             = Some \<lparr>name = ''W-OG'', loops = No_loops\<rparr>"
    by code_simp
  have c: "fetchServerPack loopback (String_trim loopback ''  W-OLLI '')
             = Some \<lparr>name = ''W-OLLI'', loops = Loops [6, 7]\<rparr>"
    by code_simp
  show ?thesis
    using build_all_or_nothing [of loopback "[Some ''W-OG'', Some ''B'']"]
      build_all_or_nothing [of loopback "[]"]
      build_all_or_nothing [of loopback "replicate 11 None"]
      build_all_or_nothing
        [of loopback "[Some (CHR 0xA0 # ''W-OG''), None, Some [], Some ''  W-OLLI '']"]
    by (simp add: a b b' c numeral_eq_Suc)
qed

subsection \<open>A transport fault during the probe\<close>

text \<open>C4, amended. When a probe of an idle store meets a transport fault (from \<open>isSet\<close>, or,
  the device being set, from \<open>getSpaceUsed\<close> or \<open>getIDs\<close>), it sets the snapshot's
  \<open>isSupported\<close> to false, sets the probe channel to idle and returns
  \<open>{supported: false, isSet: v}\<close>, \<open>v\<close> being the snapshot's \<open>isSet\<close> after the call:
  unchanged from before the call when \<open>isSet\<close> itself failed, and true, the value just read
  from the device, when \<open>getSpaceUsed\<close> or \<open>getIDs\<close> failed.\<close>

theorem probe_fault_marks_unsupported:
  assumes "\<not> isTransfering w"
    and "isl (sm_isSet K (io w))
         \<or> (sm_isSet K (io w) = Inr True
            \<and> (isl (sm_getSpaceUsed K (io w @ [IsSet]))
               \<or> isl (sm_getIDs K (io w @ [IsSet, GetSpaceUsed]))))"
  shows "fst (checkDeviceSampleSupport K w) =
           Inr (Obj \<lparr>supported = Some False,
                     isSet_result = (if isl (sm_isSet K (io w)) then isSet (deviceSamplesState w)
                                     else Some True)\<rparr>)
       \<and> isSupported (deviceSamplesState (snd (checkDeviceSampleSupport K w))) = Some False
       \<and> supportCheck (deviceSampleTransferState (snd (checkDeviceSampleSupport K w))) = Idle
       \<and> isSet (deviceSamplesState (snd (checkDeviceSampleSupport K w))) =
           (if isl (sm_isSet K (io w)) then isSet (deviceSamplesState w) else Some True)"
  using assms
  by (auto simp add: checkDeviceSampleSupport_def probe_try_def await_defs set_supportCheck_def
      Let_def isl_def split: sum.splits)

theorem probe_fault_marks_unsupported_witness:
  "fst (checkDeviceSampleSupport dead_device supported_unset)
     = Inr (Obj \<lparr>supported = Some False, isSet_result = Some False\<rparr>)
   \<and> isSet (deviceSamplesState (snd (checkDeviceSampleSupport dead_device supported_unset)))
     = isSet (deviceSamplesState supported_unset)
   \<and> supportCheck (deviceSampleTransferState
       (snd (checkDeviceSampleSupport dead_device supported_unset))) = Idle
   \<and> fst (checkDeviceSampleSupport no_ids_device supported_unset)
     = Inr (Obj \<lparr>supported = Some False, isSet_result = Some True\<rparr>)
   \<and> isSupported (deviceSamplesState (snd (checkDeviceSampleSupport no_ids_device supported_unset)))
     = Some False"
  using probe_fault_marks_unsupported [of supported_unset dead_device]
    probe_fault_marks_unsupported [of supported_unset no_ids_device]
  by (simp add: example_defs dead_device_def no_ids_device_def isTransfering_def)

text \<open>The claim as stated fails when the fault comes after \<open>isSet\<close> has answered: the
  snapshot's \<open>isSet\<close> was unknown before the call and is true after it.\<close>

theorem probe_fault_counterexample:
  "isSet (deviceSamplesState fresh) = None
   \<and> isSet (deviceSamplesState (snd (checkDeviceSampleSupport no_space_device fresh))) = Some True
   \<and> fst (checkDeviceSampleSupport no_space_device fresh)
       = Inr (Obj \<lparr>supported = Some False, isSet_result = Some True\<rparr>)"
  by (simp add: checkDeviceSampleSupport_def probe_try_def await_defs chan_defs Let_def
      example_defs no_space_device_def)

subsection \<open>How the operations return\<close>

lemma probe_try_channels:
  "deviceSampleTransferState (snd (probe_try K w)) = deviceSampleTransferState w"
  by (simp add: probe_try_def await_defs Let_def split: sum.splits)

lemma probe_returns:
  "(isTransfering w
      \<and> fst (checkDeviceSampleSupport K w) = Inr Undefined
      \<and> deviceSampleTransferState (snd (checkDeviceSampleSupport K w)) =
          (deviceSampleTransferState w)\<lparr>supportCheck := Error ''Transfer already in progress''\<rparr>)
   \<or> (\<not> isTransfering w
      \<and> (\<exists>r. fst (checkDeviceSampleSupport K w) = Inr (Obj r))
      \<and> deviceSampleTransferState (snd (checkDeviceSampleSupport K w)) =
          (deviceSampleTransferState w)\<lparr>supportCheck := Idle\<rparr>)"
proof (cases "isTransfering w")
  case True
  then show ?thesis
    by (simp add: checkDeviceSampleSupport_def set_supportCheck_def)
next
  case False
  have "deviceSampleTransferState (snd (probe_try K (set_supportCheck (Transferring None) w)))
          = (deviceSampleTransferState w)\<lparr>supportCheck := Transferring None\<rparr>"
    by (simp add: probe_try_channels) (simp add: set_supportCheck_def)
  with False show ?thesis
    by (auto simp add: checkDeviceSampleSupport_def set_supportCheck_def Let_def
        split: prod.splits sum.splits)
qed










subsection \<open>Faults and the public boundary\<close>




subsection \<open>Normal returns release the channels\<close>

lemma probe_quiet:
  "\<not> transferring (supportCheck (deviceSampleTransferState (snd (checkDeviceSampleSupport K w))))
   \<and> (\<not> isTransfering w \<longrightarrow> \<not> isTransfering (snd (checkDeviceSampleSupport K w)))"
  using probe_returns [of w K] by (auto simp add: isTransfering_def)

lemma download_quiet:
  assumes "fst (downloadDeviceSamples K w) = Inr r"
  shows "\<not> transferring (download (deviceSampleTransferState (snd (downloadDeviceSamples K w))))
       \<and> (\<not> isTransfering w \<longrightarrow> \<not> isTransfering (snd (downloadDeviceSamples K w)))"
  using assms
  by (auto simp add: downloadDeviceSamples_def await_downloadSamples_eq chan_defs Let_def
      split: prod.splits sum.splits option.splits if_splits)

lemma verify_upload_quiet:
  assumes "fst (verify_upload K C w) = Inr b"
    and "\<not> isTransfering w"
  shows "\<not> isTransfering (snd (verify_upload K C w))"
  using assms
  by (auto simp add: verify_upload_def await_isSet_def downloadDeviceSamples_def
      await_downloadSamples_eq chan_defs Let_def
      split: prod.splits sum.splits option.splits if_splits js.splits)

lemma upload_quiet:
  assumes ret: "fst (uplaodDeviceSamples K newSamples w) = Inr b"
  shows "\<not> transferring (upload (deviceSampleTransferState
                                  (snd (uplaodDeviceSamples K newSamples w))))
       \<and> (\<not> isTransfering w \<longrightarrow> \<not> isTransfering (snd (uplaodDeviceSamples K newSamples w)))"
proof (cases "isTransfering w \<or> isSupported (deviceSamplesState w) \<noteq> Some True
               \<or> (case newSamples of None \<Rightarrow> True
                   | Some ns \<Rightarrow> (case pages ns of None \<Rightarrow> True | Some pgs \<Rightarrow> length pgs \<noteq> 10))")
  case True
  then show ?thesis
    by (cases newSamples; cases "pages (the newSamples)")
       (auto simp add: uplaodDeviceSamples_def chan_defs)
next
  case False
  then obtain C pgs where C: "newSamples = Some C" "pages C = Some pgs" "length pgs = 10"
    by (auto split: option.splits)
  obtain ps rs where prs: "sm_uploadSamples K (io w) C = (ps, rs)"
    by (cases "sm_uploadSamples K (io w) C")
  define w2 where "w2 =
    w\<lparr>io := io w @ [UploadSamples C],
      deviceSampleTransferState := (deviceSampleTransferState w)\<lparr>upload := Idle\<rparr>\<rparr>"
  have unfold: "uplaodDeviceSamples K newSamples w =
      (case rs of
         Inl e \<Rightarrow>
           (Inl e,
            w\<lparr>deviceSampleTransferState := (deviceSampleTransferState w)
                 \<lparr>upload := (if ps = [] then Transferring None
                             else Transferring (Some (last ps)))\<rparr>,
              io := io w @ [UploadSamples C]\<rparr>)
       | Inr s \<Rightarrow>
           if \<not> s then (Inr False, set_upload (Error ''Failed to upload samples to device'') w2)
           else verify_upload K C w2)"
    using False C prs
    by (simp add: uplaodDeviceSamples_def await_uploadSamples_eq set_upload_def w2_def Let_def
        split: sum.splits)
  from False have quiet2: "\<not> isTransfering w2"
    by (simp add: w2_def isTransfering_def)
  show ?thesis
  proof (cases rs)
    case (Inl e)
    with ret show ?thesis by (simp add: unfold)
  next
    case (Inr s)
    show ?thesis
    proof (cases s)
      case False
      with Inr quiet2 show ?thesis by (simp add: unfold chan_defs)
    next
      case True
      with verify_upload_quiet [of K C w2 b] ret Inr quiet2 show ?thesis
        by (simp add: unfold isTransfering_def)
    qed
  qed
qed

lemma default_upload_quiet:
  assumes "fst (uplaodDeviceDefaultSamples K w) = Inr b"
  shows "\<not> transferring (upload (deviceSampleTransferState
                                  (snd (uplaodDeviceDefaultSamples K w))))
       \<and> (\<not> isTransfering w \<longrightarrow> \<not> isTransfering (snd (uplaodDeviceDefaultSamples K w)))"
proof (cases "isTransfering w")
  case True
  then show ?thesis by (simp add: uplaodDeviceDefaultSamples_def chan_defs)
next
  case False
  show ?thesis
  proof (cases "buildDeviceSamplesFromIds K (Some (map Some DEFAULT_SAMPLE_PACK_IDS))")
    case None
    with False show ?thesis by (simp add: uplaodDeviceDefaultSamples_def chan_defs)
  next
    case (Some defaults)
    with False assms upload_quiet [of K "Some defaults" w b] show ?thesis
      by (simp add: uplaodDeviceDefaultSamples_def)
  qed
qed

lemma initialise_quiet:
  assumes ret: "fst (initialiseDeviceSamples K w) = Inr u"
    and quiet: "\<not> isTransfering w"
  shows "\<not> isTransfering (snd (initialiseDeviceSamples K w))"
proof -
  obtain r1 w1 where c1: "checkDeviceSampleSupport K w = (r1, w1)"
    by (cases "checkDeviceSampleSupport K w")
  with probe_returns [of w K] quiet obtain support where r1: "r1 = Inr (Obj support)"
    by auto
  from probe_quiet [of K w] quiet c1 have q1: "\<not> isTransfering w1" by simp
  have dl: "\<not> isTransfering (snd (case downloadDeviceSamples K v of
                                      (Inl e, w4) \<Rightarrow> (Inl e, w4)
                                    | (Inr r, w4) \<Rightarrow> (Inr (), w4)))"
    if "\<not> isTransfering v"
      and "fst (case downloadDeviceSamples K v of
                  (Inl e, w4) \<Rightarrow> (Inl e :: fault + unit, w4)
                | (Inr r, w4) \<Rightarrow> (Inr (), w4)) = Inr u" for v
    using that download_quiet [of K v]
    by (cases "downloadDeviceSamples K v") (auto split: sum.splits)
  show ?thesis
  proof (cases "truthy (supported support)")
    case False
    with c1 r1 q1 show ?thesis by (simp add: initialiseDeviceSamples_def)
  next
    case sup: True
    show ?thesis
    proof (cases "isSet_result support = Some True")
      case True
      with c1 r1 sup ret dl [OF q1] show ?thesis by (simp add: initialiseDeviceSamples_def)
    next
      case unset: False
      obtain r2 w2 where d: "uplaodDeviceDefaultSamples K w1 = (r2, w2)"
        by (cases "uplaodDeviceDefaultSamples K w1")
      with c1 r1 sup unset ret obtain b where r2: "r2 = Inr b"
        by (cases r2) (simp_all add: initialiseDeviceSamples_def)
      with default_upload_quiet [of K w1 b] d q1 have q2: "\<not> isTransfering w2" by simp
      show ?thesis
      proof (cases b)
        case False
        with c1 r1 sup unset d r2 q2 show ?thesis
          by (simp add: initialiseDeviceSamples_def chan_defs)
      next
        case True
        obtain r3 w3 where c3: "checkDeviceSampleSupport K w2 = (r3, w3)"
          by (cases "checkDeviceSampleSupport K w2")
        with probe_returns [of w2 K] q2 obtain supportAfter where r3: "r3 = Inr (Obj supportAfter)"
          by auto
        from probe_quiet [of K w2] q2 c3 have q3: "\<not> isTransfering w3" by simp
        show ?thesis
        proof (cases "\<not> truthy (supported supportAfter) \<or> \<not> truthy (isSet_result supportAfter)")
          case True
          with c1 r1 sup unset d r2 \<open>b\<close> c3 r3 q3 show ?thesis
            by (simp add: initialiseDeviceSamples_def chan_defs)
        next
          case False
          with c1 r1 sup unset d r2 \<open>b\<close> c3 r3 ret dl [OF q3] show ?thesis
            by (simp add: initialiseDeviceSamples_def)
        qed
      qed
    qed
  qed
qed

text \<open>Whatever the transport does: when a public operation returns normally, the channel
  it owns (the probe channel for the probe, the download channel for the download, the
  upload channel for the two uploads) is not transferring; and started with no channel
  transferring, each of the five operations returns with no channel transferring.\<close>

theorem normal_return_releases_channels:
  "\<not> transferring (supportCheck (deviceSampleTransferState (snd (checkDeviceSampleSupport K w))))
   \<and> (\<forall>r. fst (downloadDeviceSamples K w) = Inr r \<longrightarrow>
        \<not> transferring (download (deviceSampleTransferState (snd (downloadDeviceSamples K w)))))
   \<and> (\<forall>b. fst (uplaodDeviceSamples K newSamples w) = Inr b \<longrightarrow>
        \<not> transferring (upload (deviceSampleTransferState
                                   (snd (uplaodDeviceSamples K newSamples w)))))
   \<and> (\<forall>b. fst (uplaodDeviceDefaultSamples K w) = Inr b \<longrightarrow>
        \<not> transferring (upload (deviceSampleTransferState
                                   (snd (uplaodDeviceDefaultSamples K w)))))
   \<and> (\<not> isTransfering w \<longrightarrow>
        \<not> isTransfering (snd (checkDeviceSampleSupport K w))
        \<and> (\<forall>r. fst (downloadDeviceSamples K w) = Inr r \<longrightarrow>
              \<not> isTransfering (snd (downloadDeviceSamples K w)))
        \<and> (\<forall>b. fst (uplaodDeviceSamples K newSamples w) = Inr b \<longrightarrow>
              \<not> isTransfering (snd (uplaodDeviceSamples K newSamples w)))
        \<and> (\<forall>b. fst (uplaodDeviceDefaultSamples K w) = Inr b \<longrightarrow>
              \<not> isTransfering (snd (uplaodDeviceDefaultSamples K w)))
        \<and> (\<forall>u. fst (initialiseDeviceSamples K w) = Inr u \<longrightarrow>
              \<not> isTransfering (snd (initialiseDeviceSamples K w))))"
  using probe_quiet [of K w] download_quiet [of K w] upload_quiet [of K newSamples w]
    default_upload_quiet [of K w] initialise_quiet [of K w]
  by blast

theorem normal_return_releases_channels_witness:
  "\<not> isTransfering fresh
   \<and> fst (initialiseDeviceSamples loopback fresh) = Inr ()
   \<and> \<not> isTransfering (snd (initialiseDeviceSamples loopback fresh))
   \<and> fst (uplaodDeviceDefaultSamples loopback supported_unset) = Inr True
   \<and> \<not> isTransfering (snd (uplaodDeviceDefaultSamples loopback supported_unset))
   \<and> fst (downloadDeviceSamples loopback downloading) = Inr Undefined
   \<and> \<not> transferring (download (deviceSampleTransferState
                                  (snd (downloadDeviceSamples loopback downloading))))"
proof -
  have a: "\<not> isTransfering fresh" "\<not> isTransfering supported_unset"
    by code_simp+
  have b: "fst (initialiseDeviceSamples loopback fresh) = Inr ()"
    by code_simp
  have c: "fst (uplaodDeviceDefaultSamples loopback supported_unset) = Inr True"
    by code_simp
  have d: "fst (downloadDeviceSamples loopback downloading) = Inr Undefined"
    by code_simp
  from normal_return_releases_channels [of loopback fresh None] a(1) b
  have e: "\<not> isTransfering (snd (initialiseDeviceSamples loopback fresh))"
    by blast
  from normal_return_releases_channels [of loopback supported_unset None] a(2) c
  have f: "\<not> isTransfering (snd (uplaodDeviceDefaultSamples loopback supported_unset))"
    by blast
  from normal_return_releases_channels [of loopback downloading None] d
  have g: "\<not> transferring (download (deviceSampleTransferState
                                        (snd (downloadDeviceSamples loopback downloading))))"
    by blast
  from a b c d e f g show ?thesis by simp
qed

subsection \<open>A fault inside a transfer\<close>

text \<open>C5 says that no call returns, normally or by a fault, with its own channel still
  transferring. The normal returns are covered above; at the following input the call
  leaves by a fault and the property fails. The snapshot says the device is set and all
  channels are idle; the transport's \<open>downloadSamples\<close> reports one progress value and
  rejects. \<open>downloadDeviceSamples\<close> leaves by the fault with its own channel still
  transferring, the busy signal stays on, and the next probe is refused as busy.\<close>

theorem download_fault_leaves_channel_transferring:
  "fst (downloadDeviceSamples dropping_device supported_set) = Inl TransportFault
   \<and> download (deviceSampleTransferState (snd (downloadDeviceSamples dropping_device supported_set)))
       = Transferring (Some 30)
   \<and> io (snd (downloadDeviceSamples dropping_device supported_set)) = [DownloadSamples]
   \<and> isTransfering (snd (downloadDeviceSamples dropping_device supported_set))
   \<and> fst (checkDeviceSampleSupport dropping_device
             (snd (downloadDeviceSamples dropping_device supported_set))) = Inr Undefined
   \<and> supportCheck (deviceSampleTransferState
        (snd (checkDeviceSampleSupport dropping_device
               (snd (downloadDeviceSamples dropping_device supported_set)))))
       = Error ''Transfer already in progress''"
  by code_simp

end
